theory Spec2Isabelle
  imports Main "HOL-Library.Sublist"
begin

section \<open>The Spotify search endpoint of \<^verbatim>\<open>server.py\<close>\<close>

text \<open>
  The repository is one FastAPI handler, \<^verbatim>\<open>search\<close>, which clamps the limit, replaces
  the underscores of the query, calls \<^verbatim>\<open>sp.search\<close> once and reduces the answer to
  name/uri pairs. The embedding follows the handler line by line. What lies outside the
  file is kept at its interface: the Spotify client is a function from the call's
  arguments to either the exception it raises or the value it returns, pydantic's check of
  a \<^verbatim>\<open>str\<close> field is given for both major versions of the library, loguru's layout of
  a message is the scan of \<^verbatim>\<open>str.format\<close>, and FastAPI's parsing of the query parameters
  is the check that the signature of the handler declares.
\<close>

subsection \<open>Python values\<close>

text \<open>
  What \<^verbatim>\<open>sp.search\<close> returns is parsed JSON or \<^verbatim>\<open>None\<close>. A dictionary is an
  association list read by its first binding for a key; numbers are integers (a JSON
  float meets the same branches as an integer everywhere in the handler).
\<close>

datatype pyval =
    PNone
  | PBool bool
  | PInt int
  | PStr string
  | PList "pyval list"
  | PDict "(string \<times> pyval) list"

text \<open>
  An exception is kept as its class and its text, \<^verbatim>\<open>str(e)\<close>. The last three classes
  derive from \<^verbatim>\<open>BaseException\<close> only; every other one is a subclass of \<^verbatim>\<open>Exception\<close>.
\<close>

datatype exn_class =
    ConnectionError
  | ReadTimeout
  | SpotifyException
  | SpotifyOauthError
  | JSONDecodeError
  | TypeError
  | AttributeError
  | KeyError
  | IndexError
  | ValueError
  | ValidationError
  | OtherException
  | KeyboardInterrupt
  | SystemExit
  | CancelledError

datatype exn = Exn exn_class string

fun isinstance_Exception :: "exn \<Rightarrow> bool" where
  "isinstance_Exception (Exn KeyboardInterrupt msg) = False"
| "isinstance_Exception (Exn SystemExit msg) = False"
| "isinstance_Exception (Exn CancelledError msg) = False"
| "isinstance_Exception (Exn c msg) = True"

text \<open>\<^verbatim>\<open>type(v).__name__\<close>, as the texts of Python's own exceptions quote it.\<close>

fun type_name :: "pyval \<Rightarrow> string" where
  "type_name PNone = ''NoneType''"
| "type_name (PBool b) = ''bool''"
| "type_name (PInt i) = ''int''"
| "type_name (PStr s) = ''str''"
| "type_name (PList xs) = ''list''"
| "type_name (PDict kvs) = ''dict''"

text \<open>\<^verbatim>\<open>not v\<close> is \<open>\<not> truthy v\<close>.\<close>

fun truthy :: "pyval \<Rightarrow> bool" where
  "truthy PNone = False"
| "truthy (PBool b) = b"
| "truthy (PInt i) = (i \<noteq> 0)"
| "truthy (PStr s) = (s \<noteq> [])"
| "truthy (PList xs) = (xs \<noteq> [])"
| "truthy (PDict kvs) = (kvs \<noteq> [])"

text \<open>\<^verbatim>\<open>p in s\<close> on two strings: \<open>p\<close> occurs in \<open>s\<close> as a contiguous run.\<close>

fun str_contains :: "string \<Rightarrow> string \<Rightarrow> bool" where
  "str_contains [] p = (p = [])"
| "str_contains (c # cs) p = (prefix p (c # cs) \<or> str_contains cs p)"

text \<open>
  \<^verbatim>\<open>k in v\<close> for a string \<open>k\<close>: key membership in a dictionary, element membership in a
  list, substring in a string, \<^verbatim>\<open>TypeError\<close> on anything else.
\<close>

fun py_contains :: "pyval \<Rightarrow> string \<Rightarrow> exn + bool" where
  "py_contains (PDict kvs) k = Inr (map_of kvs k \<noteq> None)"
| "py_contains (PList xs) k = Inr (List.member xs (PStr k))"
| "py_contains (PStr s) k = Inr (str_contains s k)"
| "py_contains v k =
     Inl (Exn TypeError (''argument of type '' @ [CHR 0x27] @ type_name v @ [CHR 0x27] @
                         '' is not iterable''))"

text \<open>
  \<^verbatim>\<open>v[k]\<close> for a string \<open>k\<close>: the value in a dictionary (\<^verbatim>\<open>KeyError\<close> without one, its
  text the key in quotes), \<^verbatim>\<open>TypeError\<close> on a list or a string, which take integer
  indices only, and on the values that take no index at all.
\<close>

fun py_getitem :: "pyval \<Rightarrow> string \<Rightarrow> exn + pyval" where
  "py_getitem (PDict kvs) k =
     (case map_of kvs k of
        None \<Rightarrow> Inl (Exn KeyError ([CHR 0x27] @ k @ [CHR 0x27]))
      | Some v \<Rightarrow> Inr v)"
| "py_getitem (PList xs) k =
     Inl (Exn TypeError ''list indices must be integers or slices, not str'')"
| "py_getitem (PStr s) k =
     Inl (Exn TypeError (''string indices must be integers, not '' @ [CHR 0x27] @ ''str'' @
                         [CHR 0x27]))"
| "py_getitem v k =
     Inl (Exn TypeError ([CHR 0x27] @ type_name v @ [CHR 0x27] @ '' object is not subscriptable''))"

text \<open>\<^verbatim>\<open>v.get(k, d)\<close>: only a dictionary has the method.\<close>

fun py_get :: "pyval \<Rightarrow> string \<Rightarrow> pyval \<Rightarrow> exn + pyval" where
  "py_get (PDict kvs) k d = (case map_of kvs k of None \<Rightarrow> Inr d | Some v \<Rightarrow> Inr v)"
| "py_get v k d =
     Inl (Exn AttributeError ([CHR 0x27] @ type_name v @ [CHR 0x27] @
                              '' object has no attribute '' @ [CHR 0x27] @ ''get'' @ [CHR 0x27]))"

text \<open>
  \<^verbatim>\<open>for item in v\<close>: the elements of a list, the keys of a dictionary, the characters of
  a string; \<^verbatim>\<open>TypeError\<close> on anything else.
\<close>

fun py_iter :: "pyval \<Rightarrow> exn + pyval list" where
  "py_iter (PList xs) = Inr xs"
| "py_iter (PDict kvs) = Inr (map (\<lambda>(k, v). PStr k) kvs)"
| "py_iter (PStr s) = Inr (map (\<lambda>c. PStr [c]) s)"
| "py_iter v =
     Inl (Exn TypeError ([CHR 0x27] @ type_name v @ [CHR 0x27] @ '' object is not iterable''))"

text \<open>\<^verbatim>\<open>str(i)\<close> for an integer.\<close>

fun str_nat :: "nat \<Rightarrow> string" where
  "str_nat n =
     (if n < 10 then [char_of (48 + n)]
      else str_nat (n div 10) @ [char_of (48 + n mod 10)])"

definition str_int :: "int \<Rightarrow> string" where
  "str_int i = (if i < 0 then CHR ''-'' # str_nat (nat (- i)) else str_nat (nat i))"

text \<open>
  \<^verbatim>\<open>repr(v)\<close>. A string is put between quotes as it is: the choice of the quote and the
  escapes of Python are left out.
\<close>

fun py_repr :: "pyval \<Rightarrow> string"
  and py_repr_list :: "pyval list \<Rightarrow> string"
  and py_repr_items :: "(string \<times> pyval) list \<Rightarrow> string" where
  "py_repr PNone = ''None''"
| "py_repr (PBool b) = (if b then ''True'' else ''False'')"
| "py_repr (PInt i) = str_int i"
| "py_repr (PStr s) = [CHR 0x27] @ s @ [CHR 0x27]"
| "py_repr (PList xs) = ''['' @ py_repr_list xs @ '']''"
| "py_repr (PDict kvs) = ''{'' @ py_repr_items kvs @ ''}''"
| "py_repr_list [] = []"
| "py_repr_list [x] = py_repr x"
| "py_repr_list (x # y # xs) = py_repr x @ '', '' @ py_repr_list (y # xs)"
| "py_repr_items [] = []"
| "py_repr_items [(k, v)] = [CHR 0x27] @ k @ [CHR 0x27] @ '': '' @ py_repr v"
| "py_repr_items ((k, v) # kv # kvs) =
     [CHR 0x27] @ k @ [CHR 0x27] @ '': '' @ py_repr v @ '', '' @ py_repr_items (kv # kvs)"

subsection \<open>The models of the source\<close>

datatype SearchType = track | album | playlist

fun SearchType_value :: "SearchType \<Rightarrow> string" where
  "SearchType_value track = ''track''"
| "SearchType_value album = ''album''"
| "SearchType_value playlist = ''playlist''"

text \<open>\<^verbatim>\<open>SearchType(s)\<close>: the member whose value is \<open>s\<close>, compared as strings.\<close>

definition SearchType_of :: "string \<Rightarrow> SearchType option" where
  "SearchType_of s =
     (if s = ''track'' then Some track
      else if s = ''album'' then Some album
      else if s = ''playlist'' then Some playlist
      else None)"

record SpotifyItem =
  name :: string
  uri :: string

record SearchResponse =
  results :: "SpotifyItem list"
  total :: int

text \<open>
  Both fields of \<^verbatim>\<open>SpotifyItem\<close> are declared \<^verbatim>\<open>str\<close>. pydantic 1 takes a string as it
  is and renders a number with \<^verbatim>\<open>str\<close>; pydantic 2 takes a string only. Neither takes
  \<^verbatim>\<open>None\<close>, a list or a dictionary. \<open>None\<close> stands for a failed validation.
\<close>

datatype pydantic = V1 | V2

fun str_field :: "pydantic \<Rightarrow> pyval \<Rightarrow> string option" where
  "str_field pv (PStr s) = Some s"
| "str_field V1 (PInt i) = Some (str_int i)"
| "str_field V1 (PBool b) = Some (if b then ''True'' else ''False'')"
| "str_field pv v = None"

text \<open>
  What the text of a \<^verbatim>\<open>ValidationError\<close> says about one field, abridged: pydantic 1
  names the error, pydantic 2 also quotes the input and its type. (pydantic 2 shortens
  a long input in the middle; here it is quoted in full.)
\<close>

fun field_error :: "pydantic \<Rightarrow> string \<Rightarrow> pyval \<Rightarrow> string" where
  "field_error V1 field PNone =
     field @ '': none is not an allowed value (type=type_error.none.not_allowed); ''"
| "field_error V1 field v = field @ '': str type expected (type=type_error.str); ''"
| "field_error V2 field v =
     field @ '': Input should be a valid string [type=string_type, input_value='' @
     py_repr v @ '', input_type='' @ type_name v @ '']; ''"

text \<open>
  \<^verbatim>\<open>SpotifyItem(name=n, uri=u)\<close>: the item, or a \<^verbatim>\<open>ValidationError\<close> that reports every
  field that failed.
\<close>

definition SpotifyItem_init :: "pydantic \<Rightarrow> pyval \<Rightarrow> pyval \<Rightarrow> exn + SpotifyItem" where
  "SpotifyItem_init pv n u =
     (case (str_field pv n, str_field pv u) of
        (Some n', Some u') \<Rightarrow> Inr \<lparr>name = n', uri = u'\<rparr>
      | (n', u') \<Rightarrow>
          Inl (Exn ValidationError
                 (''validation errors for SpotifyItem: '' @
                  (if n' = None then field_error pv ''name'' n else []) @
                  (if u' = None then field_error pv ''uri'' u else []))))"

subsection \<open>The logger\<close>

text \<open>
  loguru lays a message out with \<^verbatim>\<open>message.format(*args, **kwargs)\<close> whenever the call
  has arguments. Only line 128 has one, \<^verbatim>\<open>exc_info=True\<close>, so only there the text is
  read as a format string. \<open>format_error\<close> follows \<^verbatim>\<open>str.format\<close> through such a text
  with no positional argument and the one keyword \<open>exc_info\<close>: \<open>None\<close> when it returns,
  the class of the exception otherwise. Doubled braces are literal; a single closing
  brace, an open field at the end and a brace inside a field name are a
  \<^verbatim>\<open>ValueError\<close>; a field with no name or a number is an \<^verbatim>\<open>IndexError\<close>, one with any
  other name than \<open>exc_info\<close> a \<^verbatim>\<open>KeyError\<close>. The field \<open>exc_info\<close> is followed when it
  is plain or has a conversion and an empty specification at most; with an attribute, an
  index or a specification that is not empty its outcome depends on how Python renders
  \<^verbatim>\<open>True\<close> there, which is not followed: it is given as a \<^verbatim>\<open>ValueError\<close>. (A number too
  long for a machine word is a \<^verbatim>\<open>ValueError\<close> in Python; either way an \<^verbatim>\<open>Exception\<close>
  leaves the handler.)
\<close>

datatype fmt_state =
    Literal
  | Opened
  | Closed
  | Name string
  | Index string
  | Conversion string
  | Converted string char
  | Spec string "char option" nat string

definition is_digit :: "char \<Rightarrow> bool" where
  "is_digit c = (c \<in> set ''0123456789'')"

text \<open>The end of a field: the lookup of its name, its conversion, its specification.\<close>

definition field_lookup :: "string \<Rightarrow> char option \<Rightarrow> string option \<Rightarrow> exn_class option" where
  "field_lookup field conv spec =
     (let first = takeWhile (\<lambda>c. c \<noteq> CHR ''.'' \<and> c \<noteq> CHR ''['') field;
          rest = dropWhile (\<lambda>c. c \<noteq> CHR ''.'' \<and> c \<noteq> CHR ''['') field
      in if first = [] \<or> list_all is_digit first then Some IndexError
         else if first \<noteq> ''exc_info'' then Some KeyError
         else if rest = [] \<and> conv \<in> {None, Some CHR ''r'', Some CHR ''s'', Some CHR ''a''} \<and>
                 spec \<in> {None, Some []}
         then None
         else Some ValueError)"

definition end_field :: "string \<Rightarrow> char option \<Rightarrow> string option \<Rightarrow> exn_class + fmt_state" where
  "end_field field conv spec =
     (case field_lookup field conv spec of None \<Rightarrow> Inr Literal | Some c \<Rightarrow> Inl c)"

text \<open>One character inside a field name.\<close>

definition name_step :: "string \<Rightarrow> char \<Rightarrow> exn_class + fmt_state" where
  "name_step field c =
     (if c = CHR ''{'' then Inl ValueError
      else if c = CHR ''['' then Inr (Index (field @ [c]))
      else if c = CHR ''}'' then end_field field None None
      else if c = CHR '':'' then Inr (Spec field None 0 [])
      else if c = CHR ''!'' then Inr (Conversion field)
      else Inr (Name (field @ [c])))"

fun format_step :: "fmt_state \<Rightarrow> char \<Rightarrow> exn_class + fmt_state" where
  "format_step Literal c =
     (if c = CHR ''{'' then Inr Opened else if c = CHR ''}'' then Inr Closed else Inr Literal)"
| "format_step Opened c = (if c = CHR ''{'' then Inr Literal else name_step [] c)"
| "format_step Closed c = (if c = CHR ''}'' then Inr Literal else Inl ValueError)"
| "format_step (Name field) c = name_step field c"
| "format_step (Index field) c =
     (if c = CHR '']'' then Inr (Name (field @ [c])) else Inr (Index (field @ [c])))"
| "format_step (Conversion field) c = Inr (Converted field c)"
| "format_step (Converted field conv) c =
     (if c = CHR ''}'' then end_field field (Some conv) None
      else if c = CHR '':'' then Inr (Spec field (Some conv) 0 [])
      else Inl ValueError)"
| "format_step (Spec field conv depth spec) c =
     (if c = CHR ''{'' then Inr (Spec field conv (Suc depth) (spec @ [c]))
      else if c = CHR ''}'' then
        (case depth of
           0 \<Rightarrow> end_field field conv (Some spec)
         | Suc d \<Rightarrow> Inr (Spec field conv d (spec @ [c])))
      else Inr (Spec field conv depth (spec @ [c])))"

fun format_scan :: "fmt_state \<Rightarrow> string \<Rightarrow> exn_class option" where
  "format_scan st [] = (if st = Literal then None else Some ValueError)"
| "format_scan st (c # cs) =
     (case format_step st c of Inl e \<Rightarrow> Some e | Inr st' \<Rightarrow> format_scan st' cs)"

definition format_error :: "string \<Rightarrow> exn_class option" where
  "format_error message = format_scan Literal message"

subsection \<open>The world outside the handler\<close>

text \<open>
  A call of \<^verbatim>\<open>sp.search(q=, type=, limit=, market=)\<close> and the client itself: what it
  raises or returns for a call.
\<close>

type_synonym call = "string \<times> string \<times> int \<times> string"

type_synonym provider = "call \<Rightarrow> exn + pyval"

text \<open>The records the handler hands to the logger, by source line.\<close>

datatype log_record =
    Searching SearchType string int
  | NoResults
  | MissingKey string
  | NoneFound SearchType string
  | Found nat SearchType
  | ProcessingError exn

text \<open>
  The state a request can touch: the log it writes and, for the claims that count remote
  calls, the calls made so far.
\<close>

record world =
  logged :: "log_record list"
  calls :: "call list"

subsection \<open>The handler\<close>

text \<open>Line 82: \<^verbatim>\<open>min(max(1, limit), 50)\<close>.\<close>

definition clamp_limit :: "int \<Rightarrow> int" where
  "clamp_limit limit = min (max 1 limit) 50"

text \<open>
  Line 85: \<^verbatim>\<open>query.replace("_", " ")\<close>. Both arguments are one character, so the
  replacement works character by character (an underscore is one byte in UTF-8 and is
  never part of a longer sequence).
\<close>

definition replace_underscores :: "string \<Rightarrow> string" where
  "replace_underscores query = map (\<lambda>c. if c = CHR ''_'' then CHR '' '' else c) query"

text \<open>Line 101: \<^verbatim>\<open>f"{type.value}s"\<close>.\<close>

definition result_key :: "SearchType \<Rightarrow> string" where
  "result_key type = SearchType_value type @ ''s''"

text \<open>Line 115: the test that lets an item into the output.\<close>

fun accepts :: "pyval \<Rightarrow> bool" where
  "accepts (PDict kvs) = (map_of kvs ''name'' \<noteq> None \<and> map_of kvs ''uri'' \<noteq> None)"
| "accepts _ = False"

text \<open>
  Lines 113 to 121: the loop over the items, \<open>acc\<close> being \<^verbatim>\<open>simplified_results\<close>. An
  item that passes the test is built into a \<^verbatim>\<open>SpotifyItem\<close>; the exception of a failed
  construction leaves the loop.
\<close>

fun simplify :: "pydantic \<Rightarrow> pyval list \<Rightarrow> SpotifyItem list \<Rightarrow> exn + SpotifyItem list" where
  "simplify pv [] acc = Inr acc"
| "simplify pv (item # items) acc =
     (if accepts item then
        (case py_getitem item ''name'' of
           Inl e \<Rightarrow> Inl e
         | Inr n \<Rightarrow>
            (case py_getitem item ''uri'' of
               Inl e \<Rightarrow> Inl e
             | Inr u \<Rightarrow>
                (case SpotifyItem_init pv n u of
                   Inl e \<Rightarrow> Inl e
                 | Inr it \<Rightarrow> simplify pv items (acc @ [it]))))
      else simplify pv items acc)"

definition empty_response :: SearchResponse where
  "empty_response = \<lparr>results = [], total = 0\<rparr>"

text \<open>
  Lines 96 to 125: from the value \<^verbatim>\<open>sp.search\<close> returned to the response or the
  exception raised on the way, together with the records logged before that.
\<close>

definition process_results ::
  "pydantic \<Rightarrow> SearchType \<Rightarrow> string \<Rightarrow> pyval \<Rightarrow> (exn + SearchResponse) \<times> log_record list" where
  "process_results pv type query res =
     (if \<not> truthy res then (Inr empty_response, [NoResults])
      else
        (case py_contains res (result_key type) of
           Inl e \<Rightarrow> (Inl e, [])
         | Inr False \<Rightarrow> (Inr empty_response, [MissingKey (result_key type)])
         | Inr True \<Rightarrow>
            (case py_getitem res (result_key type) of
               Inl e \<Rightarrow> (Inl e, [])
             | Inr section \<Rightarrow>
                (case py_get section ''items'' (PList []) of
                   Inl e \<Rightarrow> (Inl e, [])
                 | Inr items \<Rightarrow>
                    if \<not> truthy items then (Inr empty_response, [NoneFound type query])
                    else
                      (case py_iter items of
                         Inl e \<Rightarrow> (Inl e, [])
                       | Inr its \<Rightarrow>
                          (case simplify pv its [] of
                             Inl e \<Rightarrow> (Inl e, [])
                           | Inr simplified_results \<Rightarrow>
                              (Inr \<lparr>results = simplified_results,
                                    total = int (length simplified_results)\<rparr>,
                               [Found (length simplified_results) type])))))))"

text \<open>
  Lines 127 to 130: \<^verbatim>\<open>except Exception\<close> logs the error and returns the empty response;
  an exception that is not an \<^verbatim>\<open>Exception\<close> passes through. The message of line 128 is
  \<open>Error processing search request: \<close> followed by the text of the exception; when the
  logger cannot lay it out, the exception of that failure leaves the handler in place of
  the response (its own text is not kept: nothing reads it).
\<close>

fun except_Exception :: "exn \<Rightarrow> world \<Rightarrow> (exn + SearchResponse) \<times> world" where
  "except_Exception (Exn c msg) w =
     (if isinstance_Exception (Exn c msg) then
        (case format_error (''Error processing search request: '' @ msg) of
           None \<Rightarrow> (Inr empty_response, w\<lparr>logged := logged w @ [ProcessingError (Exn c msg)]\<rparr>)
         | Some c' \<Rightarrow> (Inl (Exn c' []), w))
      else (Inl (Exn c msg), w))"

text \<open>Lines 78 to 130: the body of \<^verbatim>\<open>search\<close>.\<close>

definition search ::
  "pydantic \<Rightarrow> provider \<Rightarrow> string \<Rightarrow> SearchType \<Rightarrow> int \<Rightarrow> world \<Rightarrow> (exn + SearchResponse) \<times> world" where
  "search pv sp query type limit w =
     (let w1 = w\<lparr>logged := logged w @ [Searching type query limit]\<rparr>;
          limit' = clamp_limit limit;
          query' = replace_underscores query;
          c = (query', SearchType_value type, limit', ''US'');
          w2 = w1\<lparr>calls := calls w1 @ [c]\<rparr>
      in case sp c of
           Inl e \<Rightarrow> except_Exception e w2
         | Inr res \<Rightarrow>
            (case process_results pv type query' res of
               (Inl e, recs) \<Rightarrow> except_Exception e (w2\<lparr>logged := logged w2 @ recs\<rparr>)
             | (Inr r, recs) \<Rightarrow> (Inr r, w2\<lparr>logged := logged w2 @ recs\<rparr>)))"

subsection \<open>The endpoint\<close>

text \<open>
  The signature \<^verbatim>\<open>search(query: str, type: SearchType, limit: int = 5)\<close> under
  \<^verbatim>\<open>@app.get\<close>: FastAPI reads the three query parameters, answers 422 itself when one
  is missing or does not parse, and calls the handler otherwise. The limit parameter is
  given as absent, as the integer it parses to, or as text that is no integer.
\<close>

datatype raw_limit = Absent | Numeric int | NonNumeric string

fun limit_param :: "raw_limit \<Rightarrow> int option" where
  "limit_param Absent = Some 5"
| "limit_param (Numeric i) = Some i"
| "limit_param (NonNumeric s) = None"

text \<open>
  What the caller sees: status 200 with the response model, status 422 from the
  validation of the parameters, status 500 when an \<^verbatim>\<open>Exception\<close> leaves the handler, or
  an exception that is no \<^verbatim>\<open>Exception\<close> and goes on through the server.
\<close>

datatype outcome = Status200 SearchResponse | Status422 | Status500 | Unhandled exn

definition endpoint ::
  "pydantic \<Rightarrow> provider \<Rightarrow> string option \<Rightarrow> string option \<Rightarrow> raw_limit \<Rightarrow> world \<Rightarrow> outcome \<times> world" where
  "endpoint pv sp raw_query raw_type raw_lim w =
     (case (raw_query, Option.bind raw_type SearchType_of, limit_param raw_lim) of
        (Some query, Some type, Some limit) \<Rightarrow>
          (case search pv sp query type limit w of
             (Inr r, w') \<Rightarrow> (Status200 r, w')
           | (Inl e, w') \<Rightarrow> (if isinstance_Exception e then Status500 else Unhandled e, w'))
      | _ \<Rightarrow> (Status422, w))"

subsection \<open>Reference definitions for the claims\<close>

text \<open>The table of response keys as the specification writes it.\<close>

fun key_table :: "SearchType \<Rightarrow> string" where
  "key_table track = ''tracks''"
| "key_table album = ''albums''"
| "key_table playlist = ''playlists''"

text \<open>
  A record whose \<open>name\<close> and \<open>uri\<close> are both present and not null, as the specification
  describes the items it expects in the output.
\<close>

fun non_null_record :: "pyval \<Rightarrow> bool" where
  "non_null_record (PDict kvs) =
     (map_of kvs ''name'' \<noteq> None \<and> map_of kvs ''name'' \<noteq> Some PNone \<and>
      map_of kvs ''uri'' \<noteq> None \<and> map_of kvs ''uri'' \<noteq> Some PNone)"
| "non_null_record _ = False"

text \<open>A value that is a string, and the string it is.\<close>

fun is_str :: "pyval \<Rightarrow> bool" where
  "is_str (PStr s) = True"
| "is_str _ = False"

fun the_str :: "pyval \<Rightarrow> string" where
  "the_str (PStr s) = s"
| "the_str _ = []"

text \<open>An item whose \<open>name\<close> and \<open>uri\<close>, where it has both, are strings.\<close>

fun str_valued :: "pyval \<Rightarrow> bool" where
  "str_valued (PDict kvs) =
     (case (map_of kvs ''name'', map_of kvs ''uri'') of
        (Some n, Some u) \<Rightarrow> is_str n \<and> is_str u
      | _ \<Rightarrow> True)"
| "str_valued _ = True"

text \<open>The name and the uri of a record, taken over as they are.\<close>

fun verbatim :: "pyval \<Rightarrow> SpotifyItem" where
  "verbatim (PDict kvs) =
     \<lparr>name = (case map_of kvs ''name'' of Some n \<Rightarrow> the_str n | None \<Rightarrow> []),
      uri = (case map_of kvs ''uri'' of Some u \<Rightarrow> the_str u | None \<Rightarrow> [])\<rparr>"
| "verbatim _ = \<lparr>name = [], uri = []\<rparr>"

text \<open>The query and the limit of a call.\<close>

fun call_query :: "call \<Rightarrow> string" where
  "call_query (q, t, l, m) = q"

fun call_limit :: "call \<Rightarrow> int" where
  "call_limit (q, t, l, m) = l"

text \<open>A text without a brace, which \<^verbatim>\<open>str.format\<close> returns as it is.\<close>

definition brace_free :: "string \<Rightarrow> bool" where
  "brace_free s = (CHR ''{'' \<notin> set s \<and> CHR ''}'' \<notin> set s)"

text \<open>Two providers for concrete runs: one answers every call with \<open>v\<close>, one raises \<open>e\<close>.\<close>

definition returns :: "pyval \<Rightarrow> provider" where
  "returns v c = Inr v"

definition raises :: "exn \<Rightarrow> provider" where
  "raises e c = Inl e"

text \<open>The world before the first request.\<close>

definition fresh :: world where
  "fresh = \<lparr>logged = [], calls = []\<rparr>"

section \<open>Properties of the handler\<close>

subsection \<open>The loop over the items\<close>

lemma str_field_PStr: "is_str v \<Longrightarrow> str_field pv v = Some (the_str v)"
  by (cases v) simp_all

lemma simplify_str_valued:
  "list_all str_valued items \<Longrightarrow>
   simplify pv items acc = Inr (acc @ map verbatim (filter accepts items))"
proof (induction items arbitrary: acc)
  case Nil
  then show ?case by simp
next
  case (Cons item items)
  show ?case
  proof (cases "accepts item")
    case False
    with Cons show ?thesis by simp
  next
    case True
    then obtain kvs n u where item: "item = PDict kvs"
      and n: "map_of kvs ''name'' = Some n" and u: "map_of kvs ''uri'' = Some u"
      by (cases item) auto
    from Cons.prems item n u have "is_str n" "is_str u" by simp_all
    then have "SpotifyItem_init pv n u = Inr \<lparr>name = the_str n, uri = the_str u\<rparr>"
      by (simp add: SpotifyItem_init_def str_field_PStr)
    with Cons item n u True show ?thesis by simp
  qed
qed

subsection \<open>Totals, calls and the state\<close>

lemma process_results_total:
  "process_results pv type query res = (Inr r, recs) \<Longrightarrow> total r = int (length (results r))"
  by (auto simp: process_results_def empty_response_def split: if_splits sum.splits bool.splits)

lemma except_Exception_total:
  "except_Exception e w = (Inr r, w') \<Longrightarrow> total r = int (length (results r))"
  by (cases e) (auto simp: empty_response_def split: if_splits option.splits)

lemma search_total:
  "search pv sp query type limit w = (Inr r, w') \<Longrightarrow> total r = int (length (results r))"
  by (auto simp: search_def Let_def split: sum.splits prod.splits
      dest: process_results_total except_Exception_total)

lemma except_Exception_calls: "calls (snd (except_Exception e w)) = calls w"
  by (cases e) (simp split: option.splits)

lemma search_calls:
  "calls (snd (search pv sp query type limit w)) =
   calls w @ [(replace_underscores query, SearchType_value type, clamp_limit limit, ''US'')]"
  by (simp add: search_def Let_def except_Exception_calls split: sum.splits prod.splits)

lemma except_Exception_fst: "fst (except_Exception e w) = fst (except_Exception e w')"
  by (cases e) (simp split: option.splits)

lemma search_fst: "fst (search pv sp query type limit w) = fst (search pv sp query type limit w')"
  by (auto simp: search_def Let_def split: sum.splits prod.splits intro: except_Exception_fst)

subsection \<open>The endpoint around the handler\<close>

lemma endpoint_valid:
  assumes "SearchType_of t = Some type" and "limit_param l = Some limit"
  shows "fst (endpoint pv sp (Some q) (Some t) l w) =
           (case fst (search pv sp q type limit w) of
              Inr r \<Rightarrow> Status200 r
            | Inl e \<Rightarrow> if isinstance_Exception e then Status500 else Unhandled e)"
    and "snd (endpoint pv sp (Some q) (Some t) l w) = snd (search pv sp q type limit w)"
  using assms by (auto simp: endpoint_def split: prod.splits sum.splits)

lemma endpoint_invalid:
  assumes "q = None \<or> Option.bind t SearchType_of = None \<or> limit_param l = None"
  shows "endpoint pv sp q t l w = (Status422, w)"
  using assms by (auto simp: endpoint_def split: option.splits)

lemma endpoint_cases:
  obtains (invalid) "q = None \<or> Option.bind t SearchType_of = None \<or> limit_param l = None"
  | (valid) query t' type limit where "q = Some query" "t = Some t'" "SearchType_of t' = Some type"
      "limit_param l = Some limit"
  by (cases q; cases t; cases "limit_param l"; cases "Option.bind t SearchType_of") auto

lemma endpoint_fst: "fst (endpoint pv sp q t l w) = fst (endpoint pv sp q t l w')"
proof (cases q t l rule: endpoint_cases)
  case invalid
  then show ?thesis by (simp add: endpoint_invalid)
next
  case (valid query t' type limit)
  then show ?thesis
    using search_fst[of pv sp query type limit w w'] by (simp add: endpoint_valid)
qed

lemma SearchType_of_Some:
  "SearchType_of t = Some type \<longleftrightarrow> t = SearchType_value type"
  by (cases type) (auto simp: SearchType_of_def)

lemma SearchType_of_None:
  "SearchType_of t = None \<longleftrightarrow> t \<notin> {''track'', ''album'', ''playlist''}"
  by (auto simp: SearchType_of_def)

lemma endpoint_request:
  assumes "limit_param lim = Some limit"
  shows "fst (endpoint pv sp (Some query) (Some (SearchType_value type)) lim w) =
           (case fst (search pv sp query type limit w) of
              Inr r \<Rightarrow> Status200 r
            | Inl e \<Rightarrow> if isinstance_Exception e then Status500 else Unhandled e)"
    and "snd (endpoint pv sp (Some query) (Some (SearchType_value type)) lim w) =
           snd (search pv sp query type limit w)"
  using assms endpoint_valid[of "SearchType_value type" type lim limit]
  by (simp_all add: SearchType_of_Some)

subsection \<open>The logger and the exceptions it is handed\<close>

lemma format_scan_brace_free: "brace_free s \<Longrightarrow> format_scan Literal s = None"
  by (induction s) (auto simp: brace_free_def)

lemma brace_free_append [simp]: "brace_free (s @ t) \<longleftrightarrow> brace_free s \<and> brace_free t"
  by (auto simp: brace_free_def)

lemma brace_free_type_name [simp]: "brace_free (type_name v)"
  by (cases v) (simp_all add: brace_free_def)

lemma except_Exception_brace_free:
  assumes "isinstance_Exception (Exn c msg)" and "brace_free msg"
  shows "fst (except_Exception (Exn c msg) w) = Inr empty_response"
proof -
  have "brace_free (''Error processing search request: '' @ msg)"
    using assms(2) by (simp add: brace_free_def)
  then have "format_error (''Error processing search request: '' @ msg) = None"
    unfolding format_error_def by (rule format_scan_brace_free)
  with assms(1) show ?thesis by simp
qed

lemma search_provider_raises:
  assumes "sp (replace_underscores query, SearchType_value type, clamp_limit limit, ''US'') =
             Inl (Exn c msg)"
    and "isinstance_Exception (Exn c msg)" and "brace_free msg"
  shows "fst (search pv sp query type limit w) = Inr empty_response"
  using assms(1) except_Exception_brace_free [OF assms(2,3)]
  by (simp add: search_def Let_def)

lemma search_provider_returns:
  assumes "sp (replace_underscores query, SearchType_value type, clamp_limit limit, ''US'') = Inr res"
  shows "fst (search pv sp query type limit w) =
     (case fst (process_results pv type (replace_underscores query) res) of
        Inl e \<Rightarrow> fst (except_Exception e w)
      | Inr r \<Rightarrow> Inr r)"
  using assms except_Exception_fst
  by (auto simp: search_def Let_def split: prod.splits sum.splits)

subsection \<open>The paths through the response\<close>

lemma process_results_falsy:
  "\<not> truthy res \<Longrightarrow> fst (process_results pv type query res) = Inr empty_response"
  by (simp add: process_results_def)

lemma process_results_not_dict:
  assumes "\<forall>kvs. res \<noteq> PDict kvs"
  shows "fst (process_results pv type query res) = Inr empty_response \<or>
         (\<exists>msg. fst (process_results pv type query res) = Inl (Exn TypeError msg) \<and> brace_free msg)"
  using assms
  by (cases res) (auto simp: process_results_def brace_free_def split: bool.splits)

lemma process_results_missing_key:
  "map_of toplevel (result_key type) = None \<Longrightarrow>
   fst (process_results pv type query (PDict toplevel)) = Inr empty_response"
  by (auto simp: process_results_def)

lemma process_results_no_items:
  assumes "map_of toplevel (result_key type) = Some (PDict sec)"
    and "map_of sec ''items'' = None \<or> (\<exists>v. map_of sec ''items'' = Some v \<and> \<not> truthy v)"
  shows "fst (process_results pv type query (PDict toplevel)) = Inr empty_response"
  using assms by (auto simp: process_results_def)

lemma process_results_items:
  assumes "map_of toplevel (result_key type) = Some (PDict sec)"
    and "map_of sec ''items'' = Some (PList items)"
    and "list_all str_valued items"
  shows "fst (process_results pv type query (PDict toplevel)) =
     Inr \<lparr>results = map verbatim (filter accepts items),
          total = int (length (filter accepts items))\<rparr>"
proof (cases "items = []")
  case True
  with assms show ?thesis by (simp add: process_results_def empty_response_def)
next
  case False
  from assms(3) have "simplify pv items [] = Inr (map verbatim (filter accepts items))"
    by (simp add: simplify_str_valued)
  with assms False show ?thesis by (auto simp: process_results_def)
qed

lemma process_results_advertised:
  "process_results pv type query (PDict ((k, PDict ((''total'', v) # sec)) # rest)) =
   process_results pv type query (PDict ((k, PDict sec) # rest))"
proof (cases "k = result_key type")
  case True
  then show ?thesis by (simp add: process_results_def)
next
  case False
  then have "py_getitem (PDict ((k, x) # rest)) (result_key type) =
             py_getitem (PDict rest) (result_key type)" for x
    by simp
  with False show ?thesis by (simp add: process_results_def split: bool.splits)
qed

subsection \<open>The query sent to the provider\<close>

lemma replace_underscores_length: "length (replace_underscores query) = length query"
  by (simp add: replace_underscores_def)

lemma replace_underscores_nth:
  "i < length query \<Longrightarrow>
   replace_underscores query ! i = (if query ! i = CHR ''_'' then CHR '' '' else query ! i)"
  by (simp add: replace_underscores_def)

lemma replace_underscores_id: "CHR ''_'' \<notin> set query \<Longrightarrow> replace_underscores query = query"
  by (induction query) (auto simp: replace_underscores_def)

subsection \<open>The response for a list of items\<close>

lemma endpoint_items:
  assumes "limit_param lim = Some limit"
    and "sp (replace_underscores query, SearchType_value type, clamp_limit limit, ''US'') =
           Inr (PDict toplevel)"
    and "map_of toplevel (result_key type) = Some (PDict sec)"
    and "map_of sec ''items'' = Some (PList items)"
    and "list_all str_valued items"
  shows "fst (endpoint pv sp (Some query) (Some (SearchType_value type)) lim w) =
           Status200 \<lparr>results = map verbatim (filter accepts items),
                      total = int (length (filter accepts items))\<rparr>"
proof -
  have "fst (search pv sp query type limit w) =
          Inr \<lparr>results = map verbatim (filter accepts items),
               total = int (length (filter accepts items))\<rparr>"
    using assms(2) search_provider_returns [of sp query type limit "PDict toplevel" pv w]
      process_results_items [OF assms(3-5), of pv "replace_underscores query"]
    by simp
  then show ?thesis using assms(1) by (simp add: endpoint_request)
qed

lemma search_advertised:
  "search pv (returns (PDict ((k, PDict ((''total'', v) # sec)) # rest))) query type limit w =
   search pv (returns (PDict ((k, PDict sec) # rest))) query type limit w"
  by (simp add: search_def returns_def process_results_advertised)

section \<open>The claims\<close>

text \<open>
  C1. The claim is that whatever exception the provider raises during the search call,
  the handler catches it and the caller gets status 200 with the empty result. The code
  means to do that and misses it at line 128: the text of the exception goes into the
  message that the logger lays out as a format string. A provider error whose text holds
  a brace, here the body of an error page, makes that layout raise inside the
  \<^verbatim>\<open>except\<close> block, and the caller gets status 500. The same error with a text free of
  braces gets the empty result.
\<close>

theorem provider_exception_with_brace_gives_500:
  "isinstance_Exception (Exn SpotifyException ''http status: 502, code: -1 - body{margin:0}'') \<and>
   fst (endpoint V2 (raises (Exn SpotifyException ''http status: 502, code: -1 - body{margin:0}''))
          (Some ''daft_punk'') (Some ''track'') Absent fresh) = Status500 \<and>
   fst (endpoint V2 (raises (Exn SpotifyException ''http status: 502, code: -1''))
          (Some ''daft_punk'') (Some ''track'') Absent fresh) =
     Status200 \<lparr>results = [], total = 0\<rparr>"
  by (simp add: endpoint_def search_def Let_def SearchType_of_def raises_def fresh_def
      format_error_def name_step_def end_field_def field_lookup_def is_digit_def
      empty_response_def)

text \<open>
  C2. The claim is that an item is accepted exactly when it is a record with a name and
  a uri that are not null, and that every other entry is skipped without failing the
  call, so that the well-formed items are still returned. The code does so for a record
  that lacks a field and for an entry that is no record: Song A is returned beside
  them. It misses the record whose name is null: the test of line 115 asks only whether
  the key is there, the record passes, \<^verbatim>\<open>SpotifyItem(name=None, ...)\<close> raises, and the
  handler answers with the empty result under either version of pydantic. Song A, which
  the claim has returned, is lost.
\<close>

theorem null_name_empties_response:
  "map verbatim (filter non_null_record
     [PDict [(''name'', PStr ''Song A''), (''uri'', PStr ''spotify:track:123'')],
      PDict [(''name'', PNone), (''uri'', PStr ''spotify:track:456'')]]) =
     [\<lparr>name = ''Song A'', uri = ''spotify:track:123''\<rparr>] \<and>
   fst (endpoint V1
      (returns (PDict [(''tracks'', PDict [(''items'', PList
          [PDict [(''name'', PStr ''Song A''), (''uri'', PStr ''spotify:track:123'')],
           PDict [(''name'', PNone), (''uri'', PStr ''spotify:track:456'')]])])]))
      (Some ''song'') (Some ''track'') Absent fresh) =
     Status200 \<lparr>results = [], total = 0\<rparr> \<and>
   fst (endpoint V2
      (returns (PDict [(''tracks'', PDict [(''items'', PList
          [PDict [(''name'', PStr ''Song A''), (''uri'', PStr ''spotify:track:123'')],
           PDict [(''name'', PNone), (''uri'', PStr ''spotify:track:456'')]])])]))
      (Some ''song'') (Some ''track'') Absent fresh) =
     Status200 \<lparr>results = [], total = 0\<rparr> \<and>
   fst (endpoint V2
      (returns (PDict [(''tracks'', PDict [(''items'', PList
          [PDict [(''name'', PStr ''Song A''), (''uri'', PStr ''spotify:track:123'')],
           PDict [(''name'', PStr ''Song B'')], PNone])])]))
      (Some ''song'') (Some ''track'') Absent fresh) =
     Status200 \<lparr>results = [\<lparr>name = ''Song A'', uri = ''spotify:track:123''\<rparr>], total = 1\<rparr>"
  by (simp add: endpoint_def search_def Let_def SearchType_of_def returns_def fresh_def
      process_results_def result_key_def SpotifyItem_init_def clamp_limit_def
      format_error_def name_step_def end_field_def field_lookup_def is_digit_def
      empty_response_def)

text \<open>
  C3. For every integer \<open>L\<close> given as the limit, the request makes exactly one provider
  call, and the limit of that call is \<open>min (max 1 L) 50\<close>: 1 when \<open>L\<close> is below 1, 50 when
  it is above 50, \<open>L\<close> itself in between.
\<close>

theorem limit_clamped:
  "\<exists>c. calls (snd (endpoint pv sp (Some query) (Some (SearchType_value type)) (Numeric L) w)) =
          calls w @ [c] \<and>
        call_limit c = min (max 1 L) 50 \<and>
        (L < 1 \<longrightarrow> call_limit c = 1) \<and>
        (50 < L \<longrightarrow> call_limit c = 50) \<and>
        (1 \<le> L \<and> L \<le> 50 \<longrightarrow> call_limit c = L)"
  by (auto simp: endpoint_request search_calls clamp_limit_def)

theorem limit_clamped_witness:
  "(\<exists>c. calls (snd (endpoint V2 (returns PNone) (Some ''x'') (Some ''track'') (Numeric (- 5)) fresh)) = [c]
       \<and> (- 5 :: int) < 1 \<and> call_limit c = 1) \<and>
   (\<exists>c. calls (snd (endpoint V2 (returns PNone) (Some ''x'') (Some ''track'') (Numeric 1000) fresh)) = [c]
       \<and> (50 :: int) < 1000 \<and> call_limit c = 50) \<and>
   (\<exists>c. calls (snd (endpoint V2 (returns PNone) (Some ''x'') (Some ''track'') (Numeric 25) fresh)) = [c]
       \<and> (1 :: int) \<le> 25 \<and> (25 :: int) \<le> 50 \<and> call_limit c = 25)"
  using limit_clamped [of V2 "returns PNone" "''x''" track "- 5" fresh]
        limit_clamped [of V2 "returns PNone" "''x''" track 1000 fresh]
        limit_clamped [of V2 "returns PNone" "''x''" track 25 fresh]
  by (simp add: fresh_def)

text \<open>
  C4. Whenever the endpoint answers with a response, on whichever path, its total is the
  length of its results list. The total is not taken from the provider: putting any
  \<open>total\<close> field into the section of the payload changes nothing in the outcome.
\<close>

theorem total_is_number_of_results:
  "(fst (endpoint pv sp q t lim w) = Status200 r \<longrightarrow> total r = int (length (results r))) \<and>
   endpoint pv (returns (PDict ((k, PDict ((''total'', v) # sec)) # rest))) q t lim w =
   endpoint pv (returns (PDict ((k, PDict sec) # rest))) q t lim w"
proof (intro conjI impI)
  assume r: "fst (endpoint pv sp q t lim w) = Status200 r"
  show "total r = int (length (results r))"
  proof (cases q t lim rule: endpoint_cases)
    case invalid
    with r show ?thesis by (simp add: endpoint_invalid)
  next
    case (valid query t' type limit)
    with r have "fst (search pv sp query type limit w) = Inr r"
      by (simp add: endpoint_valid split: sum.splits if_splits)
    then show ?thesis
      using search_total [of pv sp query type limit w r] by (cases "search pv sp query type limit w") simp
  qed
next
  show "endpoint pv (returns (PDict ((k, PDict ((''total'', v) # sec)) # rest))) q t lim w =
        endpoint pv (returns (PDict ((k, PDict sec) # rest))) q t lim w"
    unfolding endpoint_def search_advertised ..
qed

theorem total_is_number_of_results_witness:
  "fst (endpoint V2
      (returns (PDict [(''tracks'', PDict [(''total'', PInt 812),
          (''items'', PList [PDict [(''name'', PStr ''Song A''), (''uri'', PStr ''spotify:track:123'')],
                            PDict [(''name'', PStr ''Song B'')], PNone])])]))
      (Some ''song'') (Some ''track'') Absent fresh) =
     Status200 \<lparr>results = [\<lparr>name = ''Song A'', uri = ''spotify:track:123''\<rparr>], total = 1\<rparr> \<and>
   total \<lparr>results = [\<lparr>name = ''Song A'', uri = ''spotify:track:123''\<rparr>], total = 1\<rparr> =
     int (length (results \<lparr>results = [\<lparr>name = ''Song A'', uri = ''spotify:track:123''\<rparr>], total = 1\<rparr>))"
  using total_is_number_of_results [of V2
      "returns (PDict [(''tracks'', PDict [(''total'', PInt 812),
          (''items'', PList [PDict [(''name'', PStr ''Song A''), (''uri'', PStr ''spotify:track:123'')],
                            PDict [(''name'', PStr ''Song B'')], PNone])])])"
      "Some ''song''" "Some ''track''" Absent fresh
      "\<lparr>results = [\<lparr>name = ''Song A'', uri = ''spotify:track:123''\<rparr>], total = 1\<rparr>"]
  by (simp add: endpoint_def search_def Let_def SearchType_of_def returns_def fresh_def
      process_results_def result_key_def SpotifyItem_init_def clamp_limit_def)

text \<open>
  C5. When the provider returns something falsy or something that is no dictionary, or a
  dictionary without the key for the requested type, or one whose section under that key
  has no \<open>items\<close> or falsy \<open>items\<close>, the caller gets status 200 with the empty result.
\<close>

theorem empty_structure_gives_empty_result:
  assumes "limit_param lim = Some limit"
    and "sp (replace_underscores query, SearchType_value type, clamp_limit limit, ''US'') = Inr res"
    and "\<not> truthy res \<or> (\<forall>kvs. res \<noteq> PDict kvs) \<or>
         (\<exists>toplevel. res = PDict toplevel \<and> map_of toplevel (result_key type) = None) \<or>
         (\<exists>toplevel sec. res = PDict toplevel \<and>
            map_of toplevel (result_key type) = Some (PDict sec) \<and>
            (map_of sec ''items'' = None \<or>
             (\<exists>v. map_of sec ''items'' = Some v \<and> \<not> truthy v)))"
  shows "fst (endpoint pv sp (Some query) (Some (SearchType_value type)) lim w) =
           Status200 \<lparr>results = [], total = 0\<rparr>"
proof -
  let ?p = "fst (process_results pv type (replace_underscores query) res)"
  from assms(3)
  have "?p = Inr empty_response \<or> (\<exists>msg. ?p = Inl (Exn TypeError msg) \<and> brace_free msg)"
    using process_results_falsy [of res pv type "replace_underscores query"]
      process_results_not_dict [of res pv type "replace_underscores query"]
      process_results_missing_key [of _ type pv "replace_underscores query"]
      process_results_no_items [of _ type _ pv "replace_underscores query"]
    by (elim disjE exE conjE) auto
  then have "fst (search pv sp query type limit w) = Inr empty_response"
    using assms(2) search_provider_returns [of sp query type limit res pv w]
      except_Exception_brace_free [of TypeError _ w]
    by auto
  then show ?thesis
    using assms(1) by (simp add: endpoint_request empty_response_def)
qed


theorem empty_structure_gives_empty_result_witness:
  "limit_param Absent = Some 5 \<and> \<not> truthy PNone \<and> \<not> truthy (PDict []) \<and>
   fst (endpoint V2 (returns PNone) (Some ''x'') (Some ''track'') Absent fresh) =
     Status200 \<lparr>results = [], total = 0\<rparr> \<and>
   fst (endpoint V2 (returns (PDict [])) (Some ''x'') (Some ''track'') Absent fresh) =
     Status200 \<lparr>results = [], total = 0\<rparr> \<and>
   fst (endpoint V2 (returns (PList [PStr ''tracks''])) (Some ''x'') (Some ''track'') Absent fresh) =
     Status200 \<lparr>results = [], total = 0\<rparr> \<and>
   fst (endpoint V2 (returns (PDict [(''albums'', PDict [(''items'', PList [PNone])])]))
          (Some ''x'') (Some ''track'') Absent fresh) =
     Status200 \<lparr>results = [], total = 0\<rparr> \<and>
   fst (endpoint V2 (returns (PDict [(''tracks'', PDict [(''total'', PInt 7)])]))
          (Some ''x'') (Some ''track'') Absent fresh) =
     Status200 \<lparr>results = [], total = 0\<rparr> \<and>
   fst (endpoint V2 (returns (PDict [(''tracks'', PDict [(''items'', PList []), (''total'', PInt 7)])]))
          (Some ''x'') (Some ''track'') Absent fresh) =
     Status200 \<lparr>results = [], total = 0\<rparr>"
  using empty_structure_gives_empty_result
          [of Absent 5 "returns PNone" "''x''" track PNone V2 fresh]
        empty_structure_gives_empty_result
          [of Absent 5 "returns (PDict [])" "''x''" track "PDict []" V2 fresh]
        empty_structure_gives_empty_result
          [of Absent 5 "returns (PList [PStr ''tracks''])" "''x''" track "PList [PStr ''tracks'']" V2 fresh]
        empty_structure_gives_empty_result
          [of Absent 5 "returns (PDict [(''albums'', PDict [(''items'', PList [PNone])])])" "''x''" track
              "PDict [(''albums'', PDict [(''items'', PList [PNone])])]" V2 fresh]
        empty_structure_gives_empty_result
          [of Absent 5 "returns (PDict [(''tracks'', PDict [(''total'', PInt 7)])])" "''x''" track
              "PDict [(''tracks'', PDict [(''total'', PInt 7)])]" V2 fresh]
        empty_structure_gives_empty_result
          [of Absent 5 "returns (PDict [(''tracks'', PDict [(''items'', PList []), (''total'', PInt 7)])])"
              "''x''" track
              "PDict [(''tracks'', PDict [(''items'', PList []), (''total'', PInt 7)])]" V2 fresh]
  by (simp add: returns_def result_key_def)

text \<open>
  C6. The query sent to the provider is the query of the request with every underscore
  replaced by a space and nothing else changed: the same length, position by position the
  same character unless it is an underscore, and the same string when there is no
  underscore; \<open>foo_bar_baz\<close> becomes \<open>foo bar baz\<close>.
\<close>

theorem underscores_become_spaces:
  assumes "limit_param lim = Some limit"
  shows "\<exists>c. calls (snd (endpoint pv sp (Some query) (Some (SearchType_value type)) lim w)) =
            calls w @ [c] \<and>
          length (call_query c) = length query \<and>
          (\<forall>i < length query.
             call_query c ! i = (if query ! i = CHR ''_'' then CHR '' '' else query ! i)) \<and>
          (CHR ''_'' \<notin> set query \<longrightarrow> call_query c = query) \<and>
          replace_underscores ''foo_bar_baz'' = ''foo bar baz''"
proof -
  let ?c = "(replace_underscores query, SearchType_value type, clamp_limit limit, ''US'')"
  have "calls (snd (endpoint pv sp (Some query) (Some (SearchType_value type)) lim w)) =
          calls w @ [?c]"
    using assms by (simp add: endpoint_request search_calls)
  moreover have "length (call_query ?c) = length query"
    by (simp add: replace_underscores_length)
  moreover have "\<forall>i < length query.
      call_query ?c ! i = (if query ! i = CHR ''_'' then CHR '' '' else query ! i)"
    by (simp add: replace_underscores_nth)
  moreover have "CHR ''_'' \<notin> set query \<longrightarrow> call_query ?c = query"
    by (simp add: replace_underscores_id)
  moreover have "replace_underscores ''foo_bar_baz'' = ''foo bar baz''"
    by (simp add: replace_underscores_def)
  ultimately show ?thesis by blast
qed

theorem underscores_become_spaces_witness:
  "limit_param Absent = Some 5 \<and> CHR ''_'' \<notin> set ''Abba Gold'' \<and> 0 < length ''Abba Gold'' \<and>
   (\<exists>c. calls (snd (endpoint V2 (returns PNone) (Some ''Abba Gold'') (Some ''album'') Absent fresh)) = [c] \<and>
        call_query c = ''Abba Gold'') \<and>
   (\<exists>c. calls (snd (endpoint V2 (returns PNone) (Some ''foo_bar_baz'') (Some ''track'') Absent fresh)) = [c] \<and>
        length (call_query c) = 11 \<and> call_query c ! 3 = CHR '' '' \<and> call_query c ! 4 = CHR ''b'')"
proof -
  have l: "limit_param Absent = Some 5" by simp
  have "\<exists>c. calls (snd (endpoint V2 (returns PNone) (Some ''Abba Gold'') (Some ''album'') Absent fresh)) = [c] \<and>
        call_query c = ''Abba Gold''"
    using underscores_become_spaces [OF l, of V2 "returns PNone" "''Abba Gold''" album fresh]
    by (auto simp: fresh_def)
  moreover
  have "\<exists>c. calls (snd (endpoint V2 (returns PNone) (Some ''foo_bar_baz'') (Some ''track'') Absent fresh)) = [c] \<and>
        length (call_query c) = 11 \<and> call_query c ! 3 = CHR '' '' \<and> call_query c ! 4 = CHR ''b''"
    using underscores_become_spaces [OF l, of V2 "returns PNone" "''foo_bar_baz''" track fresh]
    by (auto simp: fresh_def)
  ultimately show ?thesis by simp
qed

text \<open>
  C7. A request whose type is not exactly \<open>track\<close>, \<open>album\<close> or \<open>playlist\<close> is answered
  with the client error 422 and leaves the world as it was, so no provider call is made;
  a request that does add a provider call carries one of the three recognised types.
\<close>

theorem unrecognized_type_rejected:
  "(t \<notin> {''track'', ''album'', ''playlist''} \<longrightarrow>
      endpoint pv sp q (Some t) lim w = (Status422, w)) \<and>
   (calls (snd (endpoint pv sp q rt lim w)) \<noteq> calls w \<longrightarrow>
      rt \<in> {Some ''track'', Some ''album'', Some ''playlist''})"
proof (intro conjI impI)
  assume "t \<notin> {''track'', ''album'', ''playlist''}"
  then have "Option.bind (Some t) SearchType_of = None"
    by (simp add: SearchType_of_None)
  then show "endpoint pv sp q (Some t) lim w = (Status422, w)"
    by (simp add: endpoint_invalid)
next
  assume c: "calls (snd (endpoint pv sp q rt lim w)) \<noteq> calls w"
  show "rt \<in> {Some ''track'', Some ''album'', Some ''playlist''}"
  proof (cases q rt lim rule: endpoint_cases)
    case invalid
    with c show ?thesis by (simp add: endpoint_invalid)
  next
    case (valid query t' type limit)
    then show ?thesis by (cases type) (auto simp: SearchType_of_Some)
  qed
qed

theorem unrecognized_type_rejected_witness:
  "''artist'' \<notin> {''track'', ''album'', ''playlist''} \<and>
   ''Track'' \<notin> {''track'', ''album'', ''playlist''} \<and>
   endpoint V2 (returns PNone) (Some ''x'') (Some ''artist'') Absent fresh = (Status422, fresh) \<and>
   endpoint V2 (returns PNone) (Some ''x'') (Some ''Track'') Absent fresh = (Status422, fresh) \<and>
   calls (snd (endpoint V2 (returns PNone) (Some ''x'') (Some ''track'') Absent fresh)) \<noteq> calls fresh \<and>
   Some ''track'' \<in> {Some ''track'', Some ''album'', Some ''playlist''}"
  using unrecognized_type_rejected [of "''artist''" V2 "returns PNone" "Some ''x''" Absent fresh "Some ''track''"]
        unrecognized_type_rejected [of "''Track''" V2 "returns PNone" "Some ''x''" Absent fresh "Some ''track''"]
  by (simp add: endpoint_def search_def Let_def SearchType_of_def returns_def fresh_def
      process_results_def empty_response_def)

text \<open>
  C8. For each of the three content types, the key the handler derives by appending
  \<open>s\<close> to the value of the type is the key of the fixed table: \<open>tracks\<close>, \<open>albums\<close>,
  \<open>playlists\<close>.
\<close>

theorem result_key_is_table: "result_key type = key_table type"
  by (cases type) (simp_all add: result_key_def)

text \<open>
  C9. The answer to a request is a function of the request and of the provider alone: it
  is the same from any two states of the world, and in particular a second, identical
  request made after the first gets the same answer. The log, the only thing the handler
  writes, is never read.
\<close>

theorem response_independent_of_state:
  "fst (endpoint pv sp q t lim w) = fst (endpoint pv sp q t lim w') \<and>
   fst (endpoint pv sp q t lim (snd (endpoint pv sp q t lim w))) = fst (endpoint pv sp q t lim w)"
  using endpoint_fst by blast

text \<open>
  C10. The claim is that the results are exactly the items that pass the acceptance
  check, in the order of the provider's list, with name and uri taken over as they are.
  The loop of lines 113 to 121 appends them in that order, and the code misses the claim
  where one of them has a null field: both records below pass the test of line 115, the
  null uri of the first makes its construction raise, and the second, which is well
  formed, is not in the results either.
\<close>

theorem null_uri_loses_accepted_items:
  "accepts (PDict [(''name'', PStr ''First''), (''uri'', PNone)]) \<and>
   accepts (PDict [(''name'', PStr ''Second''), (''uri'', PStr ''spotify:album:2'')]) \<and>
   fst (endpoint V1
      (returns (PDict [(''albums'', PDict [(''items'', PList
          [PDict [(''name'', PStr ''First''), (''uri'', PNone)],
           PDict [(''name'', PStr ''Second''), (''uri'', PStr ''spotify:album:2'')]])])]))
      (Some ''x'') (Some ''album'') Absent fresh) =
     Status200 \<lparr>results = [], total = 0\<rparr> \<and>
   fst (endpoint V2
      (returns (PDict [(''albums'', PDict [(''items'', PList
          [PDict [(''name'', PStr ''First''), (''uri'', PNone)],
           PDict [(''name'', PStr ''Second''), (''uri'', PStr ''spotify:album:2'')]])])]))
      (Some ''x'') (Some ''album'') Absent fresh) =
     Status200 \<lparr>results = [], total = 0\<rparr>"
  by (simp add: endpoint_def search_def Let_def SearchType_of_def returns_def fresh_def
      process_results_def result_key_def SpotifyItem_init_def clamp_limit_def
      format_error_def name_step_def end_field_def field_lookup_def is_digit_def
      empty_response_def)

end
